theory Spec2Isabelle
  imports Main
begin

section \<open>Data model\<close>

text \<open>
  The package \<open>charmrepo\<close> offers two implementations of one repository interface:
  \<open>CharmStore\<close> (an HTTP registry with a local archive cache, charmstore.go) and
  \<open>GitRepo\<close> (a git remote cloned on every call). Both are embedded below as
  functions that take the process state (\<open>world\<close>) and return a result together
  with the state they leave behind. Everything the package calls but does not
  define (the registry client, the file system primitives, the archive readers,
  go-git) is a field of the record \<open>env\<close>: the theorems hold for every behaviour
  of these collaborators.
\<close>

type_synonym bytes = string

text \<open>\<open>charm.URL\<close> (and \<open>charm.Reference\<close>, which has the same fields).\<close>

record URL =
  Schema :: string
  User :: string
  Name :: string
  Revision :: int
  Series :: string

text \<open>
  Errors. Each constructor is one way the package builds an error value:
  \<open>panic\<close>, \<open>errgo.Newf\<close>, \<open>errgo.WithCausef\<close>, \<open>errgo.Notef\<close>,
  \<open>errgo.NoteMask (..., errgo.Any)\<close>, \<open>errgo.Mask (err, errgo.Any)\<close>,
  \<open>errgo.Mask (err)\<close> and \<open>CharmNotFound\<close>; \<open>ErrNotFound\<close> is the sentinel
  \<open>params.ErrNotFound\<close> and \<open>External\<close> an error made by a collaborator.
  A message is its format string with the rendered arguments.
\<close>

datatype error =
    ErrNotFound
  | External string
  | Panic string
  | Newf string "string list"
  | WithCausef error string "string list"
  | Notef error string
  | NoteMaskAny error string "string list"
  | MaskAny error
  | Mask error
  | CharmNotFound string

text \<open>\<open>errgo.Cause\<close>: the recorded cause, or the error itself when none is recorded.\<close>

fun Cause :: "error \<Rightarrow> error" where
  "Cause (WithCausef c f as) = c"
| "Cause (NoteMaskAny e f as) = Cause e"
| "Cause (MaskAny e) = Cause e"
| "Cause e = e"

text \<open>
  The response body returned by \<open>GetArchive\<close>: the bytes it delivers, and the
  error (if any) with which the copy out of it ends instead of EOF.
\<close>

record stream =
  body :: bytes
  copy_error :: "error option"

text \<open>
  \<open>git.CloneOptions\<close>, restricted to the fields of interest. \<open>ReferenceName\<close>
  is the remote reference to check out; its zero value \<open>''''\<close> means the remote's
  default \<open>HEAD\<close>.
\<close>

record CloneOptions =
  CloneURL :: string
  ReferenceName :: string
  RecurseSubmodules :: nat

definition DefaultSubmoduleRecursionDepth :: nat where
  "DefaultSubmoduleRecursionDepth = 10"

type_synonym worktree = "(string \<times> bytes) list"

text \<open>What \<open>charm.Charm\<close> exposes to this package: \<open>Meta().Series\<close> and \<open>Revision()\<close>.\<close>

record charm =
  Meta_Series :: "string list"
  charm_Revision :: int

datatype charm_bundle = Bundle bytes

text \<open>Calls that leave the process: registry requests, body closes, clones.\<close>

datatype event =
    EvGetArchive URL
  | EvBodyClose
  | EvGet string
  | EvMeta URL
  | EvPlainClone string CloneOptions

text \<open>
  The process state: the global variable \<open>CacheDir\<close>, the regular files and
  the directories of the file system, the working trees materialised by clones,
  and the calls made so far.
\<close>

record world =
  CacheDir :: string
  files :: "string \<rightharpoonup> bytes"
  dirs :: "string set"
  worktrees :: "string \<rightharpoonup> worktree"
  trace :: "event list"

text \<open>One entry of the registry's \<open>/meta/any\<close> response.\<close>

record meta =
  IdRevision :: int
  Hash256 :: string

text \<open>\<open>CharmRevision\<close>: the per-reference result of \<open>Latest\<close>.\<close>

record CharmRevision =
  RevisionCR :: int
  Sha256 :: string
  Err :: "error option"

text \<open>
  The collaborators, one field per call the package makes:
  \<open>os.MkdirAll\<close> (its error, if any), \<open>csclient.Client.GetArchive\<close> (the
  body, the entity id, the expected hash and the expected size),
  \<open>Client.Get\<close> on \<open>/meta/any\<close> (the decoded response, keyed by URL),
  \<open>Client.Meta\<close> (the id of the response), \<open>ioutil.TempFile\<close> (the path of
  the file it created), \<open>utils.ReplaceFile\<close>, the failure of reading a local
  file, the hexadecimal SHA-384 digest, \<open>charm.Quote\<close>, \<open>URL.String\<close>,
  \<open>filepath.Join\<close>, \<open>url.Values.Encode\<close>, the three readers of the package
  \<open>charm\<close>, \<open>ioutil.TempDir\<close>, \<open>git.PlainClone\<close> (the working tree it
  materialises) and \<open>charm.SeriesForCharm\<close>.
\<close>

record env =
  MkdirAll :: "string \<Rightarrow> error option"
  GetArchive :: "URL \<Rightarrow> error + (stream \<times> URL \<times> string \<times> int)"
  client_Get :: "string \<Rightarrow> error + (string \<rightharpoonup> meta)"
  client_Meta :: "URL \<Rightarrow> error + URL"
  TempFile :: "string \<Rightarrow> string \<Rightarrow> error + string"
  ReplaceFile :: "string \<Rightarrow> string \<Rightarrow> error option"
  file_io_error :: "string \<Rightarrow> error option"
  sha384_hex :: "bytes \<Rightarrow> string"
  Quote :: "string \<Rightarrow> string"
  URL_String :: "URL \<Rightarrow> string"
  Join :: "string \<Rightarrow> string \<Rightarrow> string"
  Values_Encode :: "(string \<times> string) list \<Rightarrow> string"
  ReadCharmArchive :: "world \<Rightarrow> string \<Rightarrow> error + charm"
  ReadBundleArchive :: "world \<Rightarrow> string \<Rightarrow> error + charm_bundle"
  ReadCharmDir :: "world \<Rightarrow> string \<Rightarrow> error + charm"
  TempDir :: "string \<Rightarrow> string \<Rightarrow> error + string"
  PlainClone :: "CloneOptions \<Rightarrow> error + worktree"
  SeriesForCharm :: "string \<Rightarrow> string list \<Rightarrow> error + string"

definition log :: "event \<Rightarrow> world \<Rightarrow> world" where
  "log e w = w\<lparr>trace := trace w @ [e]\<rparr>"

definition WithRevision :: "URL \<Rightarrow> int \<Rightarrow> URL" where
  "WithRevision u r = u\<lparr>Revision := r\<rparr>"

section \<open>The registry backend (charmstore.go)\<close>

text \<open>
  \<open>verifyHash384AndSize\<close>: \<open>None\<close> is Go's \<open>nil\<close>. \<open>os.Open\<close> fails when
  there is no file at the path; \<open>file_io_error\<close> stands for every other failure of
  the open or of the copy into the hash, both of which the source masks alike.
  The size is the number of bytes read; Go holds it in an \<open>int64\<close>, which the
  length of a file cannot exceed.
\<close>

definition verifyHash384AndSize :: "env \<Rightarrow> world \<Rightarrow> string \<Rightarrow> string \<Rightarrow> int \<Rightarrow> error option" where
  "verifyHash384AndSize E w path expectHash expectSize =
     (case files w path of
        None \<Rightarrow> Some (Mask (External ''open: no such file or directory''))
      | Some content \<Rightarrow>
          (case file_io_error E path of
             Some err \<Rightarrow> Some (Mask err)
           | None \<Rightarrow>
               if int (length content) \<noteq> expectSize
               then Some (Newf ''size mismatch for %q'' [path])
               else if sha384_hex E content \<noteq> expectHash
               then Some (Newf ''hash mismatch for %q'' [path])
               else None))"

definition etype_of :: "URL \<Rightarrow> string" where
  "etype_of curl = (if Series curl = ''bundle'' then ''bundle'' else ''charm'')"

text \<open>
  The part of \<open>archivePath\<close> after \<open>GetArchive\<close> has succeeded (source lines
  125 to 157). \<open>io.Copy\<close> into the temporary file leaves there every byte the
  body delivered, whether the copy ends with EOF or with an error. The only
  statements that touch the temporary file afterwards are \<open>f.Close()\<close> and
  \<open>utils.ReplaceFile\<close>, a rename.
\<close>

definition storeArchive ::
  "env \<Rightarrow> stream \<Rightarrow> string \<Rightarrow> string \<Rightarrow> int \<Rightarrow> world \<Rightarrow> (error + string) \<times> world" where
  "storeArchive E r path expectHash expectSize w =
     (if verifyHash384AndSize E w path expectHash expectSize = None
      then (Inr path, w)
      else
        (case TempFile E (CacheDir w) ''charm-download'' of
           Inl err \<Rightarrow> (Inl (Notef err ''cannot make temporary file''), w)
         | Inr tmp \<Rightarrow>
             (let w1 = w\<lparr>files := (files w)(tmp \<mapsto> body r)\<rparr> in
              case copy_error r of
                Some err \<Rightarrow> (Inl (Notef err ''cannot read entity archive''), w1)
              | None \<Rightarrow>
                  if int (length (body r)) \<noteq> expectSize
                  then (Inl (Newf ''size mismatch; network corruption?'' []), w1)
                  else if sha384_hex E (body r) \<noteq> expectHash
                  then (Inl (Newf ''hash mismatch; network corruption?'' []), w1)
                  else
                    (case ReplaceFile E tmp path of
                       Some err \<Rightarrow> (Inl (Notef err ''cannot move the entity archive''), w1)
                     | None \<Rightarrow>
                         (Inr path,
                          w1\<lparr>files := ((files w1)(tmp := None))(path \<mapsto> body r)\<rparr>)))))"

text \<open>
  The canonical place of an archive in the cache (source line 126):
  \<open>filepath.Join(CacheDir, charm.Quote(id.String())+"."+etype)\<close>.
\<close>

definition cache_path :: "env \<Rightarrow> string \<Rightarrow> URL \<Rightarrow> URL \<Rightarrow> string" where
  "cache_path E dir ident curl = Join E dir (Quote E (URL_String E ident) @ ''.'' @ etype_of curl)"

text \<open>
  \<open>CharmStore.archivePath\<close>. The deferred \<open>r.Close()\<close> runs on every return
  after \<open>GetArchive\<close> has succeeded.
\<close>

definition CharmStore_archivePath :: "env \<Rightarrow> URL \<Rightarrow> world \<Rightarrow> (error + string) \<times> world" where
  "CharmStore_archivePath E curl w =
     (case MkdirAll E (CacheDir w) of
        Some err \<Rightarrow> (Inl (Notef err ''cannot create the cache directory''), w)
      | None \<Rightarrow>
          (let w1 = log (EvGetArchive curl) (w\<lparr>dirs := insert (CacheDir w) (dirs w)\<rparr>) in
           case GetArchive E curl of
             Inl err \<Rightarrow>
               if Cause err = ErrNotFound
               then (Inl (WithCausef ErrNotFound ''cannot retrieve %q: %s not found''
                            [URL_String E curl, etype_of curl]), w1)
               else (Inl (NoteMaskAny err ''cannot retrieve %s %q''
                            [etype_of curl, URL_String E curl]), w1)
           | Inr (r, ident, expectHash, expectSize) \<Rightarrow>
               (let path = cache_path E (CacheDir w1) ident curl;
                    (res, w2) = storeArchive E r path expectHash expectSize w1
                in (res, log EvBodyClose w2))))"

definition CharmStore_Get :: "env \<Rightarrow> URL \<Rightarrow> world \<Rightarrow> (error + charm) \<times> world" where
  "CharmStore_Get E curl w =
     (if CacheDir w = '''' then (Inl (Panic ''charm cache directory path is empty''), w)
      else if Series curl = ''bundle''
      then (Inl (Newf ''expected a charm URL, got bundle URL %q'' [URL_String E curl]), w)
      else
        (case CharmStore_archivePath E curl w of
           (Inl err, w') \<Rightarrow> (Inl (MaskAny err), w')
         | (Inr path, w') \<Rightarrow> (ReadCharmArchive E w' path, w')))"

definition CharmStore_GetBundle :: "env \<Rightarrow> URL \<Rightarrow> world \<Rightarrow> (error + charm_bundle) \<times> world" where
  "CharmStore_GetBundle E curl w =
     (if CacheDir w = '''' then (Inl (Panic ''charm cache directory path is empty''), w)
      else if Series curl \<noteq> ''bundle''
      then (Inl (Newf ''expected a bundle URL, got charm URL %q'' [URL_String E curl]), w)
      else
        (case CharmStore_archivePath E curl w of
           (Inl err, w') \<Rightarrow> (Inl (MaskAny err), w')
         | (Inr path, w') \<Rightarrow> (ReadBundleArchive E w' path, w')))"

text \<open>
  \<open>CharmStore.Latest\<close>. The first loop renders every URL with its revision
  stripped and adds it to the query under the key \<open>id\<close>; \<open>url.Values\<close> is
  kept as the list of pairs in the order of the \<open>Add\<close> calls and handed to
  \<open>Encode\<close>. The second loop fills one response per rendered URL. A nil slice
  is the empty list.
\<close>

fun request_ids :: "env \<Rightarrow> URL list \<Rightarrow> string list" where
  "request_ids E [] = []"
| "request_ids E (curl # curls) = URL_String E (WithRevision curl (- 1)) # request_ids E curls"

definition meta_any_request :: "env \<Rightarrow> string list \<Rightarrow> string" where
  "meta_any_request E urls =
     ''/meta/any'' @ ''?'' @
     Values_Encode E
       ([(''ignore-auth'', ''1''), (''include'', ''id-revision''), (''include'', ''hash256'')]
        @ map (\<lambda>url. (''id'', url)) urls)"

fun build_responses :: "(string \<rightharpoonup> meta) \<Rightarrow> string list \<Rightarrow> CharmRevision list" where
  "build_responses results [] = []"
| "build_responses results (url # urls) =
     (case results url of
        None \<Rightarrow> \<lparr>RevisionCR = 0, Sha256 = '''', Err = Some (CharmNotFound url)\<rparr>
      | Some result \<Rightarrow>
          \<lparr>RevisionCR = IdRevision result, Sha256 = Hash256 result, Err = None\<rparr>)
     # build_responses results urls"

definition CharmStore_Latest :: "env \<Rightarrow> URL list \<Rightarrow> world \<Rightarrow> (error + CharmRevision list) \<times> world" where
  "CharmStore_Latest E curls w =
     (if length curls = 0 then (Inr [], w)
      else
        (let urls = request_ids E curls;
             u = meta_any_request E urls;
             w1 = log (EvGet u) w
         in case client_Get E u of
              Inl err \<Rightarrow>
                (Inl (NoteMaskAny err ''cannot get metadata from the charm store'' []), w1)
            | Inr results \<Rightarrow> (Inr (build_responses results urls), w1)))"

text \<open>\<open>CharmStore.Resolve\<close>. Its first statement is the metadata request.\<close>

definition resolve_etype :: "URL \<Rightarrow> string" where
  "resolve_etype ref =
     (if Series ref = ''bundle'' then ''bundle''
      else if Series ref = '''' then ''charm or bundle''
      else ''charm'')"

definition CharmStore_Resolve :: "env \<Rightarrow> URL \<Rightarrow> world \<Rightarrow> (error + URL \<times> string list) \<times> world" where
  "CharmStore_Resolve E ref w =
     (let w1 = log (EvMeta ref) w in
      case client_Meta E ref of
        Inl err \<Rightarrow>
          if Cause err = ErrNotFound
          then (Inl (WithCausef ErrNotFound ''cannot resolve URL %q: %s not found''
                       [URL_String E ref, resolve_etype ref]), w1)
          else (Inl (NoteMaskAny err ''cannot resolve charm URL %q'' [URL_String E ref]), w1)
      | Inr ident \<Rightarrow> (Inr (ident, []), w1))"

section \<open>The git backend\<close>

record GitRepo =
  remoteURI :: string
  reference :: string

text \<open>
  \<open>strings.Split\<close> for a separator of one byte: the pieces between the
  occurrences of the separator, in order; a string without the separator (the
  empty string too) is its own single piece.
\<close>

fun Split :: "string \<Rightarrow> char \<Rightarrow> string list" where
  "Split [] c = [[]]"
| "Split (x # xs) c =
     (if x = c then [] # Split xs c
      else (case Split xs c of [] \<Rightarrow> [[x]] | t # ts \<Rightarrow> (x # t) # ts))"

definition NewGitRepo :: "URL \<Rightarrow> error + GitRepo" where
  "NewGitRepo ref =
     (let tokens = Split (Name ref) CHR ''?'';
          reference = (if length tokens > 1 then tokens ! 1 else ''HEAD'')
      in Inr \<lparr>remoteURI = tokens ! 0, reference = reference\<rparr>)"

text \<open>
  \<open>GitRepo.archivePath\<close>. The options passed to \<open>git.PlainClone\<close> set the
  URL and the submodule depth and nothing else. The second \<open>err != nil\<close> test
  of the source (lines 93 to 95) follows no statement and repeats the first.
\<close>

definition GitRepo_archivePath :: "env \<Rightarrow> GitRepo \<Rightarrow> URL \<Rightarrow> world \<Rightarrow> (error + string) \<times> world" where
  "GitRepo_archivePath E g checkout w =
     (case TempDir E '''' ''juju-clone'' of
        Inl err \<Rightarrow> (Inl (MaskAny err), w)
      | Inr tempDir \<Rightarrow>
          (let opts = \<lparr>CloneURL = remoteURI g, ReferenceName = '''',
                       RecurseSubmodules = DefaultSubmoduleRecursionDepth\<rparr>;
               w1 = log (EvPlainClone tempDir opts) (w\<lparr>dirs := insert tempDir (dirs w)\<rparr>)
           in case PlainClone E opts of
                Inl err \<Rightarrow> (Inl (MaskAny err), w1)
              | Inr tree \<Rightarrow> (Inr tempDir, w1\<lparr>worktrees := (worktrees w1)(tempDir \<mapsto> tree)\<rparr>)))"

definition GitRepo_Get :: "env \<Rightarrow> GitRepo \<Rightarrow> URL \<Rightarrow> world \<Rightarrow> (error + charm) \<times> world" where
  "GitRepo_Get E g checkout w =
     (if Series checkout = ''bundle''
      then (Inl (Newf ''expected a charm URL, got bundle URL %q'' [URL_String E checkout]), w)
      else
        (case GitRepo_archivePath E g checkout w of
           (Inl err, w') \<Rightarrow> (Inl (MaskAny err), w')
         | (Inr path, w') \<Rightarrow> (ReadCharmDir E w' path, w')))"

definition GitRepo_GetBundle :: "env \<Rightarrow> GitRepo \<Rightarrow> URL \<Rightarrow> world \<Rightarrow> (error + charm_bundle) \<times> world" where
  "GitRepo_GetBundle E g checkout w =
     (if Series checkout \<noteq> ''bundle''
      then (Inl (Newf ''expected a bundle URL, got charm URL %q'' [URL_String E checkout]), w)
      else
        (case GitRepo_archivePath E g checkout w of
           (Inl err, w') \<Rightarrow> (Inl (MaskAny err), w')
         | (Inr path, w') \<Rightarrow> (ReadBundleArchive E w' path, w')))"

definition GitRepo_Resolve :: "env \<Rightarrow> GitRepo \<Rightarrow> URL \<Rightarrow> world \<Rightarrow> (error + URL \<times> string list) \<times> world" where
  "GitRepo_Resolve E g checkout w =
     (if Series checkout = ''''
      then (Inl (Newf ''no series specified for %s'' [URL_String E checkout]), w)
      else if Revision checkout \<noteq> - 1 then (Inr (checkout, []), w)
      else if Series checkout = ''bundle'' then (Inr (WithRevision checkout 0, []), w)
      else
        (case GitRepo_Get E g checkout w of
           (Inl err, w') \<Rightarrow> (Inl err, w')
         | (Inr ch, w') \<Rightarrow>
             (case SeriesForCharm E (Series checkout) (Meta_Series ch) of
                Inl err \<Rightarrow> (Inl err, w')
              | Inr s \<Rightarrow> (Inr (WithRevision checkout (charm_Revision ch), []), w'))))"

section \<open>Fixtures\<close>

text \<open>
  A concrete registry, file system and remote on which the theorems below are
  exercised. \<open>sha384_vectors\<close> tabulates the SHA-384 digests of three inputs;
  \<open>url_text\<close> and \<open>quote_text\<close> follow the shape of \<open>URL.String\<close> and
  \<open>charm.Quote\<close>.
\<close>

definition sha384_vectors :: "bytes \<Rightarrow> string" where
  "sha384_vectors d =
     (if d = ''abc''
      then ''cb00753f45a35e8bb5a03d699ac65007272c32ab0eded1631a8b605a43ff5bed8086072ba1e7cc2358baeca134c825a7''
      else if d = ''''
      then ''38b060a751ac96384cd9327eb1b1e36a21fdb71114be07434c0cc7bf63f6e1da274edebfe76f65fbd51ad2f14898b95b''
      else ''5d15bcebb965fa77926c23471c96e3a326b363f5f105c3ef17cfd033b9734fa46556f81a26bb3044d2dda50481325ef7'')"

fun decimal :: "nat \<Rightarrow> string" where
  "decimal n =
     (if n < 10 then [''0123456789'' ! n]
      else decimal (n div 10) @ [''0123456789'' ! (n mod 10)])"

fun encode_pairs :: "(string \<times> string) list \<Rightarrow> string" where
  "encode_pairs [] = ''''"
| "encode_pairs [(k, v)] = k @ ''='' @ v"
| "encode_pairs ((k, v) # kv # kvs) = k @ ''='' @ v @ ''&'' @ encode_pairs (kv # kvs)"

definition url_text :: "URL \<Rightarrow> string" where
  "url_text u =
     Schema u @ '':'' @ (if Series u = '''' then '''' else Series u @ ''/'') @ Name u
     @ (if Revision u < 0 then '''' else ''-'' @ decimal (nat (Revision u)))"

definition quote_text :: "string \<Rightarrow> string" where
  "quote_text s =
     concat (map (\<lambda>c. if c = CHR '':'' then ''_3a_'' else if c = CHR ''/'' then ''_2f_'' else [c]) s)"

definition wordpress :: URL where
  "wordpress = \<lparr>Schema = ''cs'', User = '''', Name = ''wordpress'', Revision = 42, Series = ''trusty''\<rparr>"

definition wiki_bundle :: URL where
  "wiki_bundle = \<lparr>Schema = ''cs'', User = '''', Name = ''wiki'', Revision = - 1, Series = ''bundle''\<rparr>"

definition mysql :: URL where
  "mysql = \<lparr>Schema = ''cs'', User = '''', Name = ''mysql'', Revision = 7, Series = ''trusty''\<rparr>"

definition git_wordpress :: URL where
  "git_wordpress = \<lparr>Schema = ''git'', User = '''', Name = ''https://example.com/wordpress.git?v1.0'',
                     Revision = - 1, Series = ''xenial''\<rparr>"

definition env0 :: env where
  "env0 = \<lparr>
     MkdirAll = (\<lambda>d. None),
     GetArchive = (\<lambda>u. Inr (\<lparr>body = ''abc'', copy_error = None\<rparr>, u, sha384_vectors ''abc'', 3)),
     client_Get = (\<lambda>q. Inr [''cs:trusty/wordpress'' \<mapsto> \<lparr>IdRevision = 42, Hash256 = ''ba78''\<rparr>,
                              ''cs:bundle/wiki'' \<mapsto> \<lparr>IdRevision = 3, Hash256 = ''9f86''\<rparr>]),
     client_Meta = (\<lambda>u. Inr u),
     TempFile = (\<lambda>d p. Inr (d @ ''/'' @ p @ ''123456'')),
     ReplaceFile = (\<lambda>a b. None),
     file_io_error = (\<lambda>p. None),
     sha384_hex = sha384_vectors,
     Quote = quote_text,
     URL_String = url_text,
     Join = (\<lambda>a b. a @ ''/'' @ b),
     Values_Encode = encode_pairs,
     ReadCharmArchive = (\<lambda>w p. Inr \<lparr>Meta_Series = [''trusty''], charm_Revision = 42\<rparr>),
     ReadBundleArchive = (\<lambda>w p. Inl (External ''zip: not a valid zip file'')),
     ReadCharmDir = (\<lambda>w p. Inr \<lparr>Meta_Series = [''xenial'', ''trusty''], charm_Revision = 7\<rparr>),
     TempDir = (\<lambda>d p. Inr (''/tmp/'' @ p @ ''654321'')),
     PlainClone = (\<lambda>opts. Inr [(''metadata.yaml'', ''name: wordpress'')]),
     SeriesForCharm = (\<lambda>s ss. if s \<in> set ss then Inr s
                                 else Inl (External ''series not supported by charm''))
   \<rparr>"

text \<open>A registry that does not know the entity.\<close>

definition env_gone :: env where
  "env_gone = env0\<lparr>client_Meta := (\<lambda>u. Inl ErrNotFound)\<rparr>"

definition tagged_repo :: GitRepo where
  "tagged_repo = \<lparr>remoteURI = ''https://example.com/wordpress.git'', reference = ''v1.0''\<rparr>"

text \<open>A registry that declares a size of 5 bytes for a body of 3.\<close>

definition env_short :: env where
  "env_short = env0\<lparr>GetArchive :=
     (\<lambda>u. Inr (\<lparr>body = ''abc'', copy_error = None\<rparr>, u, sha384_vectors ''abc'', 5))\<rparr>"

definition unset_world :: world where
  "unset_world = \<lparr>CacheDir = '''', files = Map.empty, dirs = {}, worktrees = Map.empty, trace = []\<rparr>"

definition empty_cache :: world where
  "empty_cache = unset_world\<lparr>CacheDir := ''/cache''\<rparr>"

definition warm_cache :: world where
  "warm_cache = empty_cache\<lparr>files := [''/cache/cs_3a_trusty_2f_wordpress-42.charm'' \<mapsto> ''abc''],
                             dirs := {''/cache''}\<rparr>"

section \<open>Auxiliary facts\<close>

lemma verify_files_only:
  "files w' = files w \<Longrightarrow> verifyHash384AndSize E w' p h n = verifyHash384AndSize E w p h n"
  by (simp add: verifyHash384AndSize_def)

lemma storeArchive_hit:
  assumes "verifyHash384AndSize E w path expectHash expectSize = None"
  shows "storeArchive E r path expectHash expectSize w = (Inr path, w)"
  using assms by (simp add: storeArchive_def)

lemma storeArchive_mismatch:
  assumes "verifyHash384AndSize E w path expectHash expectSize \<noteq> None"
    and "TempFile E (CacheDir w) ''charm-download'' = Inr tmp"
    and "copy_error r = None"
    and "int (length (body r)) \<noteq> expectSize \<or> sha384_hex E (body r) \<noteq> expectHash"
  shows "storeArchive E r path expectHash expectSize w =
           (Inl (if int (length (body r)) \<noteq> expectSize
                 then Newf ''size mismatch; network corruption?'' []
                 else Newf ''hash mismatch; network corruption?'' []),
            w\<lparr>files := (files w)(tmp \<mapsto> body r)\<rparr>)"
proof (cases "int (length (body r)) \<noteq> expectSize")
  case True
  with assms(1-3) show ?thesis by (simp add: storeArchive_def)
next
  case False
  with assms show ?thesis by (simp add: storeArchive_def)
qed

lemma archivePath_after_GetArchive:
  assumes "MkdirAll E (CacheDir w) = None"
    and "GetArchive E curl = Inr (r, ident, expectHash, expectSize)"
    and "storeArchive E r (cache_path E (CacheDir w) ident curl) expectHash expectSize
           (log (EvGetArchive curl) (w\<lparr>dirs := insert (CacheDir w) (dirs w)\<rparr>)) = (res, w2)"
  shows "CharmStore_archivePath E curl w = (res, log EvBodyClose w2)"
  using assms by (simp add: CharmStore_archivePath_def Let_def log_def)

lemma request_ids_map:
  "request_ids E curls = map (\<lambda>curl. URL_String E (WithRevision curl (- 1))) curls"
  by (induction curls) auto

lemma build_responses_map:
  "build_responses results urls =
     map (\<lambda>url. case results url of
                  None \<Rightarrow> \<lparr>RevisionCR = 0, Sha256 = [], Err = Some (CharmNotFound url)\<rparr>
                | Some m \<Rightarrow> \<lparr>RevisionCR = IdRevision m, Sha256 = Hash256 m, Err = None\<rparr>) urls"
  by (induction urls) auto

lemma Split_no_sep: "c \<notin> set s \<Longrightarrow> Split s c = [s]"
  by (induction s) auto

lemma Split_at_first: "c \<notin> set u \<Longrightarrow> Split (u @ c # r) c = u # Split r c"
  by (induction u) auto

section \<open>The cache of the registry backend\<close>

text \<open>
  Claim C1, as the code has it. Suppose \<open>archivePath\<close> gets as far as the
  download (the directory and the archive request succeed, the cache check does
  not pass, the temporary file \<open>tmp\<close> is created, the copy ends with EOF) and
  the observed size or hash differs from the expected one. Then the call fails
  with the size mismatch error when the sizes differ and with the hash mismatch
  error otherwise, and nothing is promoted: every file other than \<open>tmp\<close>,
  the one at the canonical path included, is as before. The temporary file is
  not removed: it stays in the cache directory holding the downloaded bytes.
\<close>

theorem mismatch_leaves_temp_file:
  assumes "MkdirAll E (CacheDir w) = None"
    and "GetArchive E curl = Inr (r, ident, expectHash, expectSize)"
    and "path = cache_path E (CacheDir w) ident curl"
    and "verifyHash384AndSize E w path expectHash expectSize \<noteq> None"
    and "TempFile E (CacheDir w) ''charm-download'' = Inr tmp"
    and "copy_error r = None"
    and "int (length (body r)) \<noteq> expectSize \<or> sha384_hex E (body r) \<noteq> expectHash"
  shows "fst (CharmStore_archivePath E curl w) =
           Inl (if int (length (body r)) \<noteq> expectSize
                then Newf ''size mismatch; network corruption?'' []
                else Newf ''hash mismatch; network corruption?'' [])
       \<and> files (snd (CharmStore_archivePath E curl w)) = (files w)(tmp \<mapsto> body r)
       \<and> (tmp \<noteq> path \<longrightarrow> files (snd (CharmStore_archivePath E curl w)) path = files w path)"
proof -
  define w1 where "w1 = log (EvGetArchive curl) (w\<lparr>dirs := insert (CacheDir w) (dirs w)\<rparr>)"
  have c: "CacheDir w1 = CacheDir w" and f: "files w1 = files w"
    by (simp_all add: w1_def log_def)
  have v: "verifyHash384AndSize E w1 path expectHash expectSize \<noteq> None"
    using assms(4) verify_files_only [OF f] by simp
  have t: "TempFile E (CacheDir w1) ''charm-download'' = Inr tmp"
    using assms(5) c by simp
  note s = storeArchive_mismatch [OF v t assms(6,7)]
  have a: "CharmStore_archivePath E curl w =
             (Inl (if int (length (body r)) \<noteq> expectSize
                   then Newf ''size mismatch; network corruption?'' []
                   else Newf ''hash mismatch; network corruption?'' []),
              log EvBodyClose (w1\<lparr>files := (files w1)(tmp \<mapsto> body r)\<rparr>))"
    by (rule archivePath_after_GetArchive [OF assms(1,2)]) (use s in \<open>simp only: assms(3) w1_def\<close>)
  show ?thesis unfolding a by (simp add: log_def f)
qed

theorem mismatch_leaves_temp_file_witness:
  "MkdirAll env_short (CacheDir empty_cache) = None
   \<and> verifyHash384AndSize env_short empty_cache ''/cache/cs_3a_trusty_2f_wordpress-42.charm''
        (sha384_vectors ''abc'') 5 \<noteq> None
   \<and> fst (CharmStore_archivePath env_short wordpress empty_cache)
        = Inl (Newf ''size mismatch; network corruption?'' [])
   \<and> files (snd (CharmStore_archivePath env_short wordpress empty_cache))
        = (files empty_cache)(''/cache/charm-download123456'' \<mapsto> ''abc'')
   \<and> files (snd (CharmStore_archivePath env_short wordpress empty_cache))
        ''/cache/cs_3a_trusty_2f_wordpress-42.charm'' = None"
proof -
  have 1: "MkdirAll env_short (CacheDir empty_cache) = None"
    by (simp add: env_short_def env0_def)
  have 2: "GetArchive env_short wordpress =
             Inr (\<lparr>body = ''abc'', copy_error = None\<rparr>, wordpress, sha384_vectors ''abc'', 5)"
    by (simp add: env_short_def env0_def)
  have 3: "''/cache/cs_3a_trusty_2f_wordpress-42.charm''
             = cache_path env_short (CacheDir empty_cache) wordpress wordpress"
    by (simp add: cache_path_def env_short_def env0_def empty_cache_def unset_world_def
        wordpress_def url_text_def quote_text_def etype_of_def)
  have 4: "verifyHash384AndSize env_short empty_cache ''/cache/cs_3a_trusty_2f_wordpress-42.charm''
             (sha384_vectors ''abc'') 5 \<noteq> None"
    by (simp add: verifyHash384AndSize_def empty_cache_def unset_world_def)
  have 5: "TempFile env_short (CacheDir empty_cache) ''charm-download'' = Inr ''/cache/charm-download123456''"
    by (simp add: env_short_def env0_def empty_cache_def unset_world_def)
  have 6: "copy_error \<lparr>body = ''abc'', copy_error = None\<rparr> = None" by simp
  have 7: "int (length (body \<lparr>body = ''abc'', copy_error = None\<rparr>)) \<noteq> 5
           \<or> sha384_hex env_short (body \<lparr>body = ''abc'', copy_error = None\<rparr>) \<noteq> sha384_vectors ''abc''"
    by simp
  from mismatch_leaves_temp_file [OF 1 2 3 4 5 6 7] 1 4
  show ?thesis by (simp add: empty_cache_def unset_world_def)
qed

text \<open>
  Claim C1 as stated asks for a cache directory without a leftover temporary
  file. With an empty cache and a registry that declares 5 bytes for a body of
  3, the call fails with the size mismatch and the cache directory holds
  \<open>charm-download123456\<close>, which was not there before.
\<close>

theorem temp_file_left_behind:
  "fst (CharmStore_archivePath env_short wordpress empty_cache)
      = Inl (Newf ''size mismatch; network corruption?'' [])
   \<and> files empty_cache ''/cache/charm-download123456'' = None
   \<and> files (snd (CharmStore_archivePath env_short wordpress empty_cache))
        ''/cache/charm-download123456'' = Some ''abc''"
  by (simp add: CharmStore_archivePath_def storeArchive_def verifyHash384AndSize_def
      cache_path_def etype_of_def log_def Let_def
      env_short_def env0_def empty_cache_def unset_world_def wordpress_def
      url_text_def quote_text_def sha384_vectors_def)

text \<open>
  Claim C2. When the directory and the archive request succeed and the file at
  the canonical path streams without error to exactly the expected size and
  hash, \<open>archivePath\<close> returns that path. No file is written (the files are
  those of the entry state) and the body obtained from the registry is closed
  without having been copied: the only calls made are the archive request and
  the close.
\<close>

theorem cache_hit:
  assumes "MkdirAll E (CacheDir w) = None"
    and "GetArchive E curl = Inr (r, ident, expectHash, expectSize)"
    and "path = cache_path E (CacheDir w) ident curl"
    and "files w path = Some content"
    and "file_io_error E path = None"
    and "int (length content) = expectSize"
    and "sha384_hex E content = expectHash"
  shows "CharmStore_archivePath E curl w =
           (Inr path, log EvBodyClose (log (EvGetArchive curl) (w\<lparr>dirs := insert (CacheDir w) (dirs w)\<rparr>)))
       \<and> files (snd (CharmStore_archivePath E curl w)) = files w
       \<and> trace (snd (CharmStore_archivePath E curl w)) = trace w @ [EvGetArchive curl, EvBodyClose]"
proof -
  define w1 where "w1 = log (EvGetArchive curl) (w\<lparr>dirs := insert (CacheDir w) (dirs w)\<rparr>)"
  have f: "files w1 = files w"
    by (simp add: w1_def log_def)
  have "verifyHash384AndSize E w path expectHash expectSize = None"
    using assms(4-7) by (simp add: verifyHash384AndSize_def)
  then have v: "verifyHash384AndSize E w1 path expectHash expectSize = None"
    using verify_files_only [OF f] by simp
  note s = storeArchive_hit [OF v, of r]
  have a: "CharmStore_archivePath E curl w = (Inr path, log EvBodyClose w1)"
    by (rule archivePath_after_GetArchive [OF assms(1,2)]) (use s in \<open>simp only: assms(3) w1_def\<close>)
  show ?thesis unfolding a by (simp add: log_def w1_def)
qed

theorem cache_hit_witness:
  "files warm_cache ''/cache/cs_3a_trusty_2f_wordpress-42.charm'' = Some ''abc''
   \<and> int (length ''abc'') = 3
   \<and> CharmStore_archivePath env0 wordpress warm_cache
       = (Inr ''/cache/cs_3a_trusty_2f_wordpress-42.charm'',
          warm_cache\<lparr>trace := [EvGetArchive wordpress, EvBodyClose]\<rparr>)
   \<and> files (snd (CharmStore_archivePath env0 wordpress warm_cache)) = files warm_cache"
proof -
  have 1: "MkdirAll env0 (CacheDir warm_cache) = None"
    by (simp add: env0_def)
  have 2: "GetArchive env0 wordpress =
             Inr (\<lparr>body = ''abc'', copy_error = None\<rparr>, wordpress, sha384_vectors ''abc'', 3)"
    by (simp add: env0_def)
  have 3: "''/cache/cs_3a_trusty_2f_wordpress-42.charm''
             = cache_path env0 (CacheDir warm_cache) wordpress wordpress"
    by (simp add: cache_path_def env0_def warm_cache_def empty_cache_def unset_world_def
        wordpress_def url_text_def quote_text_def etype_of_def)
  have 4: "files warm_cache ''/cache/cs_3a_trusty_2f_wordpress-42.charm'' = Some ''abc''"
    by (simp add: warm_cache_def)
  have 5: "file_io_error env0 ''/cache/cs_3a_trusty_2f_wordpress-42.charm'' = None"
    by (simp add: env0_def)
  have 6: "int (length ''abc'') = 3" by simp
  have 7: "sha384_hex env0 ''abc'' = sha384_vectors ''abc''" by (simp add: env0_def)
  from cache_hit [OF 1 2 3 4 5 6 7] 4
  show ?thesis by (simp add: log_def warm_cache_def empty_cache_def unset_world_def)
qed

text \<open>
  Claim C7. When \<open>CacheDir\<close> is the empty string, \<open>CharmStore.Get\<close> and
  \<open>CharmStore.GetBundle\<close> panic at once: the result is the panic, and the state
  (files, directories, calls made) is the one they were entered with, so nothing
  was fetched and no cache path was made up.
\<close>

theorem unset_CacheDir_panics:
  assumes "CacheDir w = ''''"
  shows "CharmStore_Get E curl w = (Inl (Panic ''charm cache directory path is empty''), w)
       \<and> CharmStore_GetBundle E curl w = (Inl (Panic ''charm cache directory path is empty''), w)"
  using assms by (simp add: CharmStore_Get_def CharmStore_GetBundle_def)

theorem unset_CacheDir_panics_witness:
  "CacheDir unset_world = ''''
   \<and> CharmStore_Get env0 wordpress unset_world
       = (Inl (Panic ''charm cache directory path is empty''), unset_world)
   \<and> CharmStore_GetBundle env0 wiki_bundle unset_world
       = (Inl (Panic ''charm cache directory path is empty''), unset_world)"
proof -
  have h: "CacheDir unset_world = ''''" by (simp add: unset_world_def)
  from unset_CacheDir_panics [OF h, of env0 wordpress] unset_CacheDir_panics [OF h, of env0 wiki_bundle] h
  show ?thesis by simp
qed

section \<open>Bulk revision queries\<close>

text \<open>
  Claim C4. \<open>Latest\<close> of no references returns the empty result and leaves the
  state, the calls made included, as it was. For a non-empty list whose metadata
  request is answered with \<open>results\<close>, \<open>Latest\<close> makes that one request and
  returns as many results as there are inputs, the \<open>i\<close>-th one belonging to
  the \<open>i\<close>-th input: its revision and hash when the revision-stripped URL is a
  key of \<open>results\<close>, and \<open>CharmNotFound\<close> of that URL in this slot alone
  when it is not.
\<close>

theorem Latest_aligned:
  "CharmStore_Latest E [] w = (Inr [], w)
   \<and> (curls \<noteq> [] \<and> client_Get E (meta_any_request E (request_ids E curls)) = Inr results \<longrightarrow>
        (\<exists>rs. CharmStore_Latest E curls w
                = (Inr rs, log (EvGet (meta_any_request E (request_ids E curls))) w)
            \<and> length rs = length curls
            \<and> (\<forall>i<length curls.
                 rs ! i =
                   (case results (URL_String E (WithRevision (curls ! i) (- 1))) of
                      None \<Rightarrow> \<lparr>RevisionCR = 0, Sha256 = '''',
                                Err = Some (CharmNotFound (URL_String E (WithRevision (curls ! i) (- 1))))\<rparr>
                    | Some m \<Rightarrow> \<lparr>RevisionCR = IdRevision m, Sha256 = Hash256 m, Err = None\<rparr>))))"
proof (intro conjI impI)
  show "CharmStore_Latest E [] w = (Inr [], w)"
    by (simp add: CharmStore_Latest_def)
next
  assume h: "curls \<noteq> [] \<and> client_Get E (meta_any_request E (request_ids E curls)) = Inr results"
  let ?urls = "request_ids E curls"
  have run: "CharmStore_Latest E curls w
               = (Inr (build_responses results ?urls), log (EvGet (meta_any_request E ?urls)) w)"
    using h by (simp add: CharmStore_Latest_def Let_def)
  have len: "length (build_responses results ?urls) = length curls"
    by (simp add: build_responses_map request_ids_map)
  have slot: "\<forall>i<length curls.
      build_responses results ?urls ! i =
        (case results (URL_String E (WithRevision (curls ! i) (- 1))) of
           None \<Rightarrow> \<lparr>RevisionCR = 0, Sha256 = '''',
                     Err = Some (CharmNotFound (URL_String E (WithRevision (curls ! i) (- 1))))\<rparr>
         | Some m \<Rightarrow> \<lparr>RevisionCR = IdRevision m, Sha256 = Hash256 m, Err = None\<rparr>)"
    by (simp add: build_responses_map request_ids_map)
  from run len slot
  show "\<exists>rs. CharmStore_Latest E curls w
                = (Inr rs, log (EvGet (meta_any_request E (request_ids E curls))) w)
            \<and> length rs = length curls
            \<and> (\<forall>i<length curls.
                 rs ! i =
                   (case results (URL_String E (WithRevision (curls ! i) (- 1))) of
                      None \<Rightarrow> \<lparr>RevisionCR = 0, Sha256 = '''',
                                Err = Some (CharmNotFound (URL_String E (WithRevision (curls ! i) (- 1))))\<rparr>
                    | Some m \<Rightarrow> \<lparr>RevisionCR = IdRevision m, Sha256 = Hash256 m, Err = None\<rparr>))"
    by blast
qed

theorem Latest_aligned_witness:
  "[wordpress, mysql, wiki_bundle] \<noteq> []
   \<and> client_Get env0 (meta_any_request env0 (request_ids env0 [wordpress, mysql, wiki_bundle]))
       = Inr [''cs:trusty/wordpress'' \<mapsto> \<lparr>IdRevision = 42, Hash256 = ''ba78''\<rparr>,
              ''cs:bundle/wiki'' \<mapsto> \<lparr>IdRevision = 3, Hash256 = ''9f86''\<rparr>]
   \<and> fst (CharmStore_Latest env0 [wordpress, mysql, wiki_bundle] empty_cache)
       = Inr [\<lparr>RevisionCR = 42, Sha256 = ''ba78'', Err = None\<rparr>,
              \<lparr>RevisionCR = 0, Sha256 = '''', Err = Some (CharmNotFound ''cs:trusty/mysql'')\<rparr>,
              \<lparr>RevisionCR = 3, Sha256 = ''9f86'', Err = None\<rparr>]"
proof -
  let ?curls = "[wordpress, mysql, wiki_bundle]"
  let ?results = "[''cs:trusty/wordpress'' \<mapsto> \<lparr>IdRevision = 42, Hash256 = ''ba78''\<rparr>,
                   ''cs:bundle/wiki'' \<mapsto> \<lparr>IdRevision = 3, Hash256 = ''9f86''\<rparr>]"
  have g: "client_Get env0 (meta_any_request env0 (request_ids env0 ?curls)) = Inr ?results"
    by (simp add: env0_def)
  from Latest_aligned [of env0 empty_cache ?curls ?results] g
  obtain rs where run: "fst (CharmStore_Latest env0 ?curls empty_cache) = Inr rs"
    and len: "length rs = 3"
    and slot: "\<forall>i<3. rs ! i =
        (case ?results (URL_String env0 (WithRevision (?curls ! i) (- 1))) of
           None \<Rightarrow> \<lparr>RevisionCR = 0, Sha256 = '''',
                     Err = Some (CharmNotFound (URL_String env0 (WithRevision (?curls ! i) (- 1))))\<rparr>
         | Some m \<Rightarrow> \<lparr>RevisionCR = IdRevision m, Sha256 = Hash256 m, Err = None\<rparr>)"
    by auto
  have u0: "URL_String env0 (WithRevision wordpress (- 1)) = ''cs:trusty/wordpress''"
    and u1: "URL_String env0 (WithRevision mysql (- 1)) = ''cs:trusty/mysql''"
    and u2: "URL_String env0 (WithRevision wiki_bundle (- 1)) = ''cs:bundle/wiki''"
    by (simp_all add: env0_def url_text_def WithRevision_def wordpress_def mysql_def wiki_bundle_def)
  have s0: "rs ! 0 = \<lparr>RevisionCR = 42, Sha256 = ''ba78'', Err = None\<rparr>"
    using slot [rule_format, of 0] by (simp add: u0)
  have s1: "rs ! 1 = \<lparr>RevisionCR = 0, Sha256 = '''', Err = Some (CharmNotFound ''cs:trusty/mysql'')\<rparr>"
    using slot [rule_format, of 1] by (simp add: u1)
  have s2: "rs ! 2 = \<lparr>RevisionCR = 3, Sha256 = ''9f86'', Err = None\<rparr>"
    using slot [rule_format, of 2] by (simp add: u2)
  have "rs = [rs ! 0, rs ! 1, rs ! 2]"
    using len by (auto simp: list_eq_iff_nth_eq less_Suc_eq numeral_3_eq_3 numeral_2_eq_2)
  with s0 s1 s2 run g show ?thesis by simp
qed

section \<open>Resolution\<close>

text \<open>
  Claim C3, as the code has it. \<open>GitRepo.Resolve\<close> returns a reference with a
  series and a pinned revision unchanged, with no error and with the state (so
  the calls made) untouched. \<open>CharmStore.Resolve\<close> has no such shortcut: for
  every reference, pinned or not, it makes exactly one metadata request, and
  when the request succeeds it returns the id that the registry reports.
\<close>

theorem pinned_Resolve:
  "(Series checkout \<noteq> '''' \<and> Revision checkout \<noteq> - 1 \<longrightarrow>
      GitRepo_Resolve E g checkout w = (Inr (checkout, []), w))
   \<and> trace (snd (CharmStore_Resolve E ref w)) = trace w @ [EvMeta ref]
   \<and> (client_Meta E ref = Inr ident \<longrightarrow>
        CharmStore_Resolve E ref w = (Inr (ident, []), log (EvMeta ref) w))"
  by (auto simp: CharmStore_Resolve_def GitRepo_Resolve_def Let_def log_def split: sum.splits)

theorem pinned_Resolve_witness:
  "Series mysql \<noteq> '''' \<and> Revision mysql \<noteq> - 1
   \<and> GitRepo_Resolve env0 tagged_repo mysql empty_cache = (Inr (mysql, []), empty_cache)
   \<and> client_Meta env0 wordpress = Inr wordpress
   \<and> CharmStore_Resolve env0 wordpress empty_cache
        = (Inr (wordpress, []), empty_cache\<lparr>trace := [EvMeta wordpress]\<rparr>)"
proof -
  have 1: "Series mysql \<noteq> '''' \<and> Revision mysql \<noteq> - 1"
    by (simp add: mysql_def)
  have 2: "client_Meta env0 wordpress = Inr wordpress"
    by (simp add: env0_def)
  from pinned_Resolve [of mysql env0 tagged_repo empty_cache wordpress wordpress] 1 2
  show ?thesis by (simp add: log_def empty_cache_def unset_world_def)
qed

text \<open>
  Claim C3 as stated fails on the registry backend: for the pinned reference
  \<open>cs:trusty/wordpress-42\<close> the metadata request is made although the registry
  answers with the same reference, and a registry that does not know the entity
  turns the call into an error.
\<close>

theorem CharmStore_Resolve_always_asks:
  "Revision wordpress \<noteq> - 1
   \<and> CharmStore_Resolve env0 wordpress empty_cache \<noteq> (Inr (wordpress, []), empty_cache)
   \<and> trace empty_cache = []
   \<and> trace (snd (CharmStore_Resolve env0 wordpress empty_cache)) = [EvMeta wordpress]
   \<and> fst (CharmStore_Resolve env_gone wordpress empty_cache)
        = Inl (WithCausef ErrNotFound ''cannot resolve URL %q: %s not found''
                 [''cs:trusty/wordpress-42'', ''charm''])"
  by (simp add: CharmStore_Resolve_def resolve_etype_def log_def Let_def
      env_gone_def env0_def empty_cache_def unset_world_def wordpress_def url_text_def)

text \<open>
  Claim C6. \<open>GitRepo.Resolve\<close> of a reference whose series is \<open>bundle\<close> and
  whose revision is \<open>-1\<close> returns the reference with revision 0, no extra
  series and no error; the state is untouched, so nothing was cloned or read.
\<close>

theorem bundle_resolves_to_zero:
  assumes "Series checkout = ''bundle''" and "Revision checkout = - 1"
  shows "GitRepo_Resolve E g checkout w = (Inr (checkout\<lparr>Revision := 0\<rparr>, []), w)"
  using assms by (simp add: GitRepo_Resolve_def WithRevision_def)

theorem bundle_resolves_to_zero_witness:
  "Series wiki_bundle = ''bundle'' \<and> Revision wiki_bundle = - 1
   \<and> GitRepo_Resolve env0 tagged_repo wiki_bundle empty_cache
        = (Inr (\<lparr>Schema = ''cs'', User = '''', Name = ''wiki'', Revision = 0, Series = ''bundle''\<rparr>, []),
           empty_cache)"
proof -
  have 1: "Series wiki_bundle = ''bundle''" and 2: "Revision wiki_bundle = - 1"
    by (simp_all add: wiki_bundle_def)
  from bundle_resolves_to_zero [OF 1 2, of env0 tagged_repo empty_cache] 1 2
  show ?thesis by (simp add: wiki_bundle_def)
qed

text \<open>
  Claim C10. Whenever \<open>Resolve\<close> of either backend succeeds, the list of
  supported series it returns next to the reference is empty, whatever the
  reference and whatever series the charm's metadata declares.
\<close>

theorem Resolve_series_list_nil:
  "(CharmStore_Resolve E ref w = (Inr (resolved, series), w') \<longrightarrow> series = [])
   \<and> (GitRepo_Resolve E g checkout w = (Inr (resolved', series'), w'') \<longrightarrow> series' = [])"
  by (auto simp: CharmStore_Resolve_def GitRepo_Resolve_def Let_def
           split: sum.splits if_splits prod.splits)

theorem Resolve_series_list_nil_witness:
  "CharmStore_Resolve env0 wordpress empty_cache
     = (Inr (wordpress, []), log (EvMeta wordpress) empty_cache)
   \<and> fst (GitRepo_Get env0 tagged_repo git_wordpress empty_cache)
     = Inr \<lparr>Meta_Series = [''xenial'', ''trusty''], charm_Revision = 7\<rparr>
   \<and> GitRepo_Resolve env0 tagged_repo git_wordpress empty_cache
     = (Inr (git_wordpress\<lparr>Revision := 7\<rparr>, []),
        snd (GitRepo_Get env0 tagged_repo git_wordpress empty_cache))"
proof -
  have 1: "CharmStore_Resolve env0 wordpress empty_cache
             = (Inr (wordpress, []), log (EvMeta wordpress) empty_cache)"
    by (simp add: CharmStore_Resolve_def Let_def env0_def)
  have 2: "fst (GitRepo_Get env0 tagged_repo git_wordpress empty_cache)
             = Inr \<lparr>Meta_Series = [''xenial'', ''trusty''], charm_Revision = 7\<rparr>"
    by (simp add: GitRepo_Get_def GitRepo_archivePath_def Let_def env0_def git_wordpress_def)
  obtain series where 3: "GitRepo_Resolve env0 tagged_repo git_wordpress empty_cache
             = (Inr (git_wordpress\<lparr>Revision := 7\<rparr>, series),
                snd (GitRepo_Get env0 tagged_repo git_wordpress empty_cache))"
    by (simp add: GitRepo_Resolve_def GitRepo_Get_def GitRepo_archivePath_def Let_def
        WithRevision_def env0_def git_wordpress_def)
  from Resolve_series_list_nil [of env0 wordpress empty_cache wordpress "[]"
      "log (EvMeta wordpress) empty_cache" tagged_repo git_wordpress
      "git_wordpress\<lparr>Revision := 7\<rparr>" series
      "snd (GitRepo_Get env0 tagged_repo git_wordpress empty_cache)"] 1 3
  have "series = []" by blast
  with 1 2 3 show ?thesis by simp
qed

section \<open>Charm and bundle requests\<close>

text \<open>
  Claim C5, as the code has it. On the git backend, \<open>Get\<close> of a reference
  with series \<open>bundle\<close> and \<open>GetBundle\<close> of a reference with any other
  series fail with the type mismatch error; on the registry backend they do so
  provided \<open>CacheDir\<close> is not empty. In each case the state is the one the
  call was entered with: no request, no clone, no file.
\<close>

theorem type_mismatch:
  "(Series curl = ''bundle'' \<longrightarrow>
      GitRepo_Get E g curl w
        = (Inl (Newf ''expected a charm URL, got bundle URL %q'' [URL_String E curl]), w))
   \<and> (Series curl \<noteq> ''bundle'' \<longrightarrow>
      GitRepo_GetBundle E g curl w
        = (Inl (Newf ''expected a bundle URL, got charm URL %q'' [URL_String E curl]), w))
   \<and> (CacheDir w \<noteq> '''' \<and> Series curl = ''bundle'' \<longrightarrow>
      CharmStore_Get E curl w
        = (Inl (Newf ''expected a charm URL, got bundle URL %q'' [URL_String E curl]), w))
   \<and> (CacheDir w \<noteq> '''' \<and> Series curl \<noteq> ''bundle'' \<longrightarrow>
      CharmStore_GetBundle E curl w
        = (Inl (Newf ''expected a bundle URL, got charm URL %q'' [URL_String E curl]), w))"
  by (simp add: GitRepo_Get_def GitRepo_GetBundle_def CharmStore_Get_def CharmStore_GetBundle_def)

theorem type_mismatch_witness:
  "Series wiki_bundle = ''bundle'' \<and> Series wordpress \<noteq> ''bundle'' \<and> CacheDir empty_cache \<noteq> ''''
   \<and> GitRepo_Get env0 tagged_repo wiki_bundle empty_cache
        = (Inl (Newf ''expected a charm URL, got bundle URL %q'' [''cs:bundle/wiki'']), empty_cache)
   \<and> GitRepo_GetBundle env0 tagged_repo wordpress empty_cache
        = (Inl (Newf ''expected a bundle URL, got charm URL %q'' [''cs:trusty/wordpress-42'']), empty_cache)
   \<and> CharmStore_Get env0 wiki_bundle empty_cache
        = (Inl (Newf ''expected a charm URL, got bundle URL %q'' [''cs:bundle/wiki'']), empty_cache)
   \<and> CharmStore_GetBundle env0 wordpress empty_cache
        = (Inl (Newf ''expected a bundle URL, got charm URL %q'' [''cs:trusty/wordpress-42'']), empty_cache)"
proof -
  have 1: "Series wiki_bundle = ''bundle''" by (simp add: wiki_bundle_def)
  have 2: "Series wordpress \<noteq> ''bundle''" by (simp add: wordpress_def)
  have 3: "CacheDir empty_cache \<noteq> ''''" by (simp add: empty_cache_def unset_world_def)
  have u: "URL_String env0 wiki_bundle = ''cs:bundle/wiki''"
    "URL_String env0 wordpress = ''cs:trusty/wordpress-42''"
    by (simp_all add: env0_def url_text_def wiki_bundle_def wordpress_def)
  from type_mismatch [of wiki_bundle env0 tagged_repo empty_cache]
    type_mismatch [of wordpress env0 tagged_repo empty_cache] 1 2 3
  show ?thesis by (simp add: u)
qed

text \<open>
  Claim C5 as stated fails on the registry backend when \<open>CacheDir\<close> is empty:
  the test of \<open>CacheDir\<close> comes first, so \<open>Get\<close> of a bundle reference and
  \<open>GetBundle\<close> of a charm reference panic instead of returning the type
  mismatch error.
\<close>

theorem panic_before_type_mismatch:
  "Series wiki_bundle = ''bundle''
   \<and> fst (CharmStore_Get env0 wiki_bundle unset_world)
        = Inl (Panic ''charm cache directory path is empty'')
   \<and> fst (CharmStore_Get env0 wiki_bundle unset_world)
        \<noteq> Inl (Newf ''expected a charm URL, got bundle URL %q'' [URL_String env0 wiki_bundle])
   \<and> Series wordpress \<noteq> ''bundle''
   \<and> fst (CharmStore_GetBundle env0 wordpress unset_world)
        = Inl (Panic ''charm cache directory path is empty'')
   \<and> fst (CharmStore_GetBundle env0 wordpress unset_world)
        \<noteq> Inl (Newf ''expected a bundle URL, got charm URL %q'' [URL_String env0 wordpress])"
  by (simp add: CharmStore_Get_def CharmStore_GetBundle_def unset_world_def
      wiki_bundle_def wordpress_def)

section \<open>The git backend\<close>

text \<open>
  Claim C8. \<open>NewGitRepo\<close> splits the name of the identifier at \<open>?\<close>. A name
  without \<open>?\<close> is the remote URI as a whole and the reference is \<open>HEAD\<close>.
  A name \<open>uri?r\<close> gives the remote URI \<open>uri\<close> and the reference \<open>r\<close>.
  Should \<open>r\<close> be followed by a further \<open>?\<close>, the reference ends there.
\<close>

theorem NewGitRepo_split:
  "(CHR ''?'' \<notin> set (Name ref) \<longrightarrow>
      NewGitRepo ref = Inr \<lparr>remoteURI = Name ref, reference = ''HEAD''\<rparr>)
   \<and> (Name ref = uri @ ''?'' @ r \<and> CHR ''?'' \<notin> set uri \<and> CHR ''?'' \<notin> set r \<longrightarrow>
      NewGitRepo ref = Inr \<lparr>remoteURI = uri, reference = r\<rparr>)
   \<and> (Name ref = uri @ ''?'' @ r @ ''?'' @ rest \<and> CHR ''?'' \<notin> set uri \<and> CHR ''?'' \<notin> set r \<longrightarrow>
      NewGitRepo ref = Inr \<lparr>remoteURI = uri, reference = r\<rparr>)"
  by (auto simp: NewGitRepo_def Split_no_sep Split_at_first Let_def)

theorem NewGitRepo_split_witness:
  "CHR ''?'' \<notin> set (Name wordpress)
   \<and> NewGitRepo wordpress = Inr \<lparr>remoteURI = ''wordpress'', reference = ''HEAD''\<rparr>
   \<and> Name git_wordpress = ''https://example.com/wordpress.git'' @ ''?'' @ ''v1.0''
   \<and> CHR ''?'' \<notin> set ''https://example.com/wordpress.git'' \<and> CHR ''?'' \<notin> set ''v1.0''
   \<and> NewGitRepo git_wordpress
        = Inr \<lparr>remoteURI = ''https://example.com/wordpress.git'', reference = ''v1.0''\<rparr>
   \<and> NewGitRepo (git_wordpress\<lparr>Name := ''repo'' @ ''?'' @ ''v1.0'' @ ''?'' @ ''x''\<rparr>)
        = Inr \<lparr>remoteURI = ''repo'', reference = ''v1.0''\<rparr>"
proof -
  have 1: "CHR ''?'' \<notin> set (Name wordpress)" by (simp add: wordpress_def)
  have 2: "Name git_wordpress = ''https://example.com/wordpress.git'' @ ''?'' @ ''v1.0''"
    by (simp add: git_wordpress_def)
  have 3: "CHR ''?'' \<notin> set ''https://example.com/wordpress.git''" "CHR ''?'' \<notin> set ''v1.0''"
    by simp_all
  have 4: "Name (git_wordpress\<lparr>Name := ''repo'' @ ''?'' @ ''v1.0'' @ ''?'' @ ''x''\<rparr>)
             = ''repo'' @ ''?'' @ ''v1.0'' @ ''?'' @ ''x''"
    by simp
  have 5: "CHR ''?'' \<notin> set ''repo''" by simp
  from NewGitRepo_split [of wordpress "''''" "''''" "''''"]
  have a: "NewGitRepo wordpress = Inr \<lparr>remoteURI = ''wordpress'', reference = ''HEAD''\<rparr>"
    using 1 by (simp add: wordpress_def)
  from NewGitRepo_split [of git_wordpress "''https://example.com/wordpress.git''" "''v1.0''" "''''"]
  have b: "NewGitRepo git_wordpress
             = Inr \<lparr>remoteURI = ''https://example.com/wordpress.git'', reference = ''v1.0''\<rparr>"
    using 2 3 by blast
  from NewGitRepo_split [of "git_wordpress\<lparr>Name := ''repo'' @ ''?'' @ ''v1.0'' @ ''?'' @ ''x''\<rparr>"
      "''repo''" "''v1.0''" "''x''"]
  have c: "NewGitRepo (git_wordpress\<lparr>Name := ''repo'' @ ''?'' @ ''v1.0'' @ ''?'' @ ''x''\<rparr>)
             = Inr \<lparr>remoteURI = ''repo'', reference = ''v1.0''\<rparr>"
    using 4 5 3(2) by blast
  from 1 2 3 a b c show ?thesis by blast
qed

text \<open>
  Claim C9, evaluated on the code. The repository made from the name
  \<open>https://example.com/wordpress.git?v1.0\<close> has the reference \<open>v1.0\<close>.
  Its \<open>Get\<close> succeeds after one clone into the fresh directory, but the clone
  is requested with no reference name, that is at the remote's default
  \<open>HEAD\<close>, and nothing is checked out afterwards: the call is the same, result
  and state, as for the repository whose reference is \<open>HEAD\<close>.
\<close>

theorem clone_ignores_reference:
  "NewGitRepo git_wordpress = Inr tagged_repo
   \<and> reference tagged_repo = ''v1.0''
   \<and> fst (GitRepo_Get env0 tagged_repo git_wordpress empty_cache)
        = Inr \<lparr>Meta_Series = [''xenial'', ''trusty''], charm_Revision = 7\<rparr>
   \<and> trace (snd (GitRepo_Get env0 tagged_repo git_wordpress empty_cache))
        = [EvPlainClone ''/tmp/juju-clone654321''
             \<lparr>CloneURL = ''https://example.com/wordpress.git'', ReferenceName = '''',
              RecurseSubmodules = 10\<rparr>]
   \<and> GitRepo_Get env0 tagged_repo git_wordpress empty_cache
        = GitRepo_Get env0 (tagged_repo\<lparr>reference := ''HEAD''\<rparr>) git_wordpress empty_cache"
  by (simp add: NewGitRepo_def GitRepo_Get_def GitRepo_archivePath_def Let_def log_def
      DefaultSubmoduleRecursionDepth_def
      env0_def tagged_repo_def git_wordpress_def empty_cache_def unset_world_def)

end
